theory Spec2Isabelle
  imports Main
begin

section \<open>Forked Alertmanager: the remote-secondary and remote-primary coordinators\<close>

text \<open>
  The development embeds package \<open>remote\<close> of the repository: the type
  \<open>RemoteSecondaryForkedAlertmanager\<close>, its constructor and its methods, which sit in front
  of two Alertmanagers (the internal one and the remote one) and decide which of them
  receives each call.

  The two Alertmanagers are collaborators behind Go interfaces. An interface value is
  modelled as a table of methods, each a function on the state of the object behind the
  interface; everything proved below holds for arbitrary such tables. Every call that the
  coordinator makes through an interface is recorded in a per-engine list of calls, the way
  the mocks of the test-suite record them.
\<close>

subsection \<open>Values passed through the coordinator\<close>

text \<open>
  Go's \<open>error\<close> is \<open>error option\<close>, \<open>None\<close> being \<open>nil\<close>. The request and response types of
  package \<open>apimodels\<close>, \<open>models\<close> and \<open>notifier\<close> are opaque to the coordinator, which only
  hands them on; they are modelled by one type of opaque payloads. A Go pointer to such a
  value is an \<open>option\<close>.
\<close>

datatype error = Error string

datatype payload = Payload string

type_synonym Context = payload
type_synonym AlertConfiguration = payload
type_synonym PostableUserConfig = payload
type_synonym GettableStatus = payload
type_synonym PostableSilence = payload
type_synonym GettableSilence = payload
type_synonym GettableSilences = payload
type_synonym GettableAlerts = payload
type_synonym AlertGroups = payload
type_synonym PostableAlerts = payload
type_synonym Receiver = payload
type_synonym TestReceiversConfigBodyParams = payload
type_synonym TestReceiversResult = payload
type_synonym TestTemplatesConfigBodyParams = payload
type_synonym TestTemplatesResults = payload

text \<open>
  A \<open>time.Time\<close> is a number of nanoseconds counted from Go's zero \<open>Time\<close>, so that the zero
  value of a \<open>time.Time\<close> field is \<open>0\<close>. A \<open>time.Duration\<close> is a number of nanoseconds;
  Go stores it in 64 bits and \<open>Time.Sub\<close> saturates at the two ends of that range.
\<close>

type_synonym Time = int
type_synonym Duration = int

definition maxDuration :: Duration where
  "maxDuration = 2 ^ 63 - 1"

definition minDuration :: Duration where
  "minDuration = - (2 ^ 63)"

definition time_Sub :: "Time \<Rightarrow> Time \<Rightarrow> Duration" where
  "time_Sub t u = max minDuration (min maxDuration (t - u))"

subsection \<open>The Alertmanager interfaces\<close>

text \<open>
  \<open>notifier.Alertmanager\<close>: one field per method. A method takes its arguments and the state
  of the engine, and returns its results and the engine's new state.
\<close>

record 'e Alertmanager =
  ApplyConfig :: "Context \<Rightarrow> AlertConfiguration option \<Rightarrow> 'e \<Rightarrow> error option \<times> 'e"
  SaveAndApplyConfig :: "Context \<Rightarrow> PostableUserConfig option \<Rightarrow> 'e \<Rightarrow> error option \<times> 'e"
  SaveAndApplyDefaultConfig :: "Context \<Rightarrow> 'e \<Rightarrow> error option \<times> 'e"
  GetStatus :: "'e \<Rightarrow> GettableStatus \<times> 'e"
  CreateSilence :: "Context \<Rightarrow> PostableSilence option \<Rightarrow> 'e \<Rightarrow> (string \<times> error option) \<times> 'e"
  DeleteSilence :: "Context \<Rightarrow> string \<Rightarrow> 'e \<Rightarrow> error option \<times> 'e"
  GetSilence :: "Context \<Rightarrow> string \<Rightarrow> 'e \<Rightarrow> (GettableSilence \<times> error option) \<times> 'e"
  ListSilences :: "Context \<Rightarrow> string list \<Rightarrow> 'e \<Rightarrow> (GettableSilences \<times> error option) \<times> 'e"
  GetAlerts :: "Context \<Rightarrow> bool \<Rightarrow> bool \<Rightarrow> bool \<Rightarrow> string list \<Rightarrow> string \<Rightarrow> 'e
                  \<Rightarrow> (GettableAlerts \<times> error option) \<times> 'e"
  GetAlertGroups :: "Context \<Rightarrow> bool \<Rightarrow> bool \<Rightarrow> bool \<Rightarrow> string list \<Rightarrow> string \<Rightarrow> 'e
                  \<Rightarrow> (AlertGroups \<times> error option) \<times> 'e"
  PutAlerts :: "Context \<Rightarrow> PostableAlerts \<Rightarrow> 'e \<Rightarrow> error option \<times> 'e"
  GetReceivers :: "Context \<Rightarrow> 'e \<Rightarrow> (Receiver list \<times> error option) \<times> 'e"
  TestReceivers :: "Context \<Rightarrow> TestReceiversConfigBodyParams \<Rightarrow> 'e
                  \<Rightarrow> (TestReceiversResult option \<times> error option) \<times> 'e"
  TestTemplate :: "Context \<Rightarrow> TestTemplatesConfigBodyParams \<Rightarrow> 'e
                  \<Rightarrow> (TestTemplatesResults option \<times> error option) \<times> 'e"
  CleanUp :: "'e \<Rightarrow> unit \<times> 'e"
  StopAndWait :: "'e \<Rightarrow> unit \<times> 'e"
  Ready :: "'e \<Rightarrow> bool \<times> 'e"

text \<open>\<open>remoteAlertmanager\<close> embeds \<open>notifier.Alertmanager\<close> and adds the two compare-and-send
  methods.\<close>

record 'e remoteAlertmanager = "'e Alertmanager" +
  CompareAndSendConfiguration :: "Context \<Rightarrow> AlertConfiguration option \<Rightarrow> 'e \<Rightarrow> error option \<times> 'e"
  CompareAndSendState :: "Context \<Rightarrow> 'e \<Rightarrow> error option \<times> 'e"

text \<open>A call received by an engine, with its arguments.\<close>

datatype call =
    Call_ApplyConfig Context "AlertConfiguration option"
  | Call_SaveAndApplyConfig Context "PostableUserConfig option"
  | Call_SaveAndApplyDefaultConfig Context
  | Call_GetStatus
  | Call_CreateSilence Context "PostableSilence option"
  | Call_DeleteSilence Context string
  | Call_GetSilence Context string
  | Call_ListSilences Context "string list"
  | Call_GetAlerts Context bool bool bool "string list" string
  | Call_GetAlertGroups Context bool bool bool "string list" string
  | Call_PutAlerts Context PostableAlerts
  | Call_GetReceivers Context
  | Call_TestReceivers Context TestReceiversConfigBodyParams
  | Call_TestTemplate Context TestTemplatesConfigBodyParams
  | Call_CleanUp
  | Call_StopAndWait
  | Call_Ready
  | Call_CompareAndSendConfiguration Context "AlertConfiguration option"
  | Call_CompareAndSendState Context

subsection \<open>Logging\<close>

datatype log_Logger = NopLogger | NamedLogger string

datatype log_level = LvlDebug | LvlError

datatype log_value = ErrValue error | TimeValue Time

type_synonym log_entry = "log_Logger \<times> log_level \<times> string \<times> (string \<times> log_value) list"

subsection \<open>The state of a run\<close>

text \<open>
  The state holds the coordinator (\<open>fam\<close>), the state of the object behind each of its two
  interface values, the calls each engine has received, what has been logged, and the clock.
  The clock is an arbitrary sequence of readings, \<open>clock s n\<close> being what the \<open>n\<close>-th reading
  of the clock returns; \<open>ticks s\<close> counts the readings taken so far.
\<close>

record ('f, 'a, 'b) sys =
  fam :: 'f
  internal_state :: 'a
  remote_state :: 'b
  internal_calls :: "call list"
  remote_calls :: "call list"
  log_output :: "log_entry list"
  clock :: "nat \<Rightarrow> Time"
  ticks :: nat

definition call_internal ::
  "call \<Rightarrow> ('a \<Rightarrow> 'r \<times> 'a) \<Rightarrow> ('f, 'a, 'b) sys \<Rightarrow> 'r \<times> ('f, 'a, 'b) sys" where
  "call_internal c m s =
     (let (r, e) = m (internal_state s)
      in (r, s\<lparr>internal_state := e, internal_calls := internal_calls s @ [c]\<rparr>))"

definition call_remote ::
  "call \<Rightarrow> ('b \<Rightarrow> 'r \<times> 'b) \<Rightarrow> ('f, 'a, 'b) sys \<Rightarrow> 'r \<times> ('f, 'a, 'b) sys" where
  "call_remote c m s =
     (let (r, e) = m (remote_state s)
      in (r, s\<lparr>remote_state := e, remote_calls := remote_calls s @ [c]\<rparr>))"

definition time_Now :: "('f, 'a, 'b) sys \<Rightarrow> Time \<times> ('f, 'a, 'b) sys" where
  "time_Now s = (clock s (ticks s), s\<lparr>ticks := Suc (ticks s)\<rparr>)"

definition time_Since :: "Time \<Rightarrow> ('f, 'a, 'b) sys \<Rightarrow> Duration \<times> ('f, 'a, 'b) sys" where
  "time_Since t s = (let (now, s') = time_Now s in (time_Sub now t, s'))"

definition log_write ::
  "log_Logger \<Rightarrow> log_level \<Rightarrow> string \<Rightarrow> (string \<times> log_value) list
     \<Rightarrow> ('f, 'a, 'b) sys \<Rightarrow> ('f, 'a, 'b) sys" where
  "log_write l lvl msg kvs s = s\<lparr>log_output := log_output s @ [(l, lvl, msg, kvs)]\<rparr>"

subsection \<open>The remote-secondary coordinator\<close>

text \<open>
  The struct \<open>RemoteSecondaryForkedAlertmanager\<close>. The constructor refuses a nil logger, so
  the logger of a coordinator is never nil and the field holds a logger, not an optional one.
  The two engines are the method tables of non-nil interface values.
\<close>

record ('a, 'b) RemoteSecondaryForkedAlertmanager =
  log :: log_Logger
  internal :: "'a Alertmanager"
  remote :: "'b remoteAlertmanager"
  lastSync :: Time
  syncInterval :: Duration

record RemoteSecondaryConfig =
  SyncInterval :: Duration
  Logger :: "log_Logger option"

definition Validate :: "RemoteSecondaryConfig \<Rightarrow> error option" where
  "Validate c = (if Logger c = None then Some (Error ''logger cannot be nil'') else None)"

text \<open>The constructor returns Go's pair of a pointer and an error. Where \<open>Validate\<close> has
  returned nil the logger of the configuration is not nil, and \<open>the\<close> reads it. \<open>lastSync\<close> is
  not mentioned in the struct literal and so has the zero value.\<close>

definition NewRemoteSecondaryForkedAlertmanager ::
  "RemoteSecondaryConfig \<Rightarrow> 'a Alertmanager \<Rightarrow> 'b remoteAlertmanager
     \<Rightarrow> ('a, 'b) RemoteSecondaryForkedAlertmanager option \<times> error option" where
  "NewRemoteSecondaryForkedAlertmanager cfg internal' remote' =
     (case Validate cfg of
        Some err \<Rightarrow> (None, Some err)
      | None \<Rightarrow>
          (Some \<lparr>log = the (Logger cfg), internal = internal', remote = remote',
                 lastSync = 0, syncInterval = SyncInterval cfg\<rparr>, None))"

type_synonym ('a, 'b) secondary = "(('a, 'b) RemoteSecondaryForkedAlertmanager, 'a, 'b) sys"

text \<open>
  The body of the goroutine that \<open>ApplyConfig\<close> starts: it decides whether the remote
  Alertmanager has to be synchronised, and does it.
\<close>

definition syncRemote ::
  "Context \<Rightarrow> AlertConfiguration option \<Rightarrow> ('a, 'b) secondary \<Rightarrow> ('a, 'b) secondary" where
  "syncRemote ctx config s =
     (let (ready, s1) = call_remote Call_Ready (Ready (remote (fam s))) s in
      if \<not> ready then
        (let (err, s2) = call_remote (Call_ApplyConfig ctx config)
                           (ApplyConfig (remote (fam s1)) ctx config) s1 in
         case err of
           Some e \<Rightarrow>
             log_write (log (fam s2)) LvlError ''Error applying config to the remote Alertmanager''
               [(''err'', ErrValue e)] s2
         | None \<Rightarrow>
             (let (now, s3) = time_Now s2 in s3\<lparr>fam := (fam s3)\<lparr>lastSync := now\<rparr>\<rparr>))
      else
        (let (since, s2) = time_Since (lastSync (fam s1)) s1 in
         if since \<ge> syncInterval (fam s2) then
           (let s3 = log_write (log (fam s2)) LvlDebug
                       ''Syncing configuration and state with the remote Alertmanager''
                       [(''lastSync'', TimeValue (lastSync (fam s2)))] s2;
                (cfgErr, s4) = call_remote (Call_CompareAndSendConfiguration ctx config)
                                 (CompareAndSendConfiguration (remote (fam s3)) ctx config) s3;
                s5 = (case cfgErr of
                        Some e \<Rightarrow>
                          log_write (log (fam s4)) LvlError
                            ''Unable to upload the configuration to the remote Alertmanager''
                            [(''err'', ErrValue e)] s4
                      | None \<Rightarrow> s4);
                (stateErr, s6) = call_remote (Call_CompareAndSendState ctx)
                                   (CompareAndSendState (remote (fam s5)) ctx) s5;
                s7 = (case stateErr of
                        Some e \<Rightarrow>
                          log_write (log (fam s6)) LvlError
                            ''Unable to upload the state to the remote Alertmanager''
                            [(''err'', ErrValue e)] s6
                      | None \<Rightarrow> s6);
                s8 = log_write (log (fam s7)) LvlDebug
                       ''Finished syncing configuration and state with the remote Alertmanager''
                       [] s7
            in if cfgErr = None \<and> stateErr = None
               then (let (now, s9) = time_Now s8 in s9\<lparr>fam := (fam s9)\<lparr>lastSync := now\<rparr>\<rparr>)
               else s8)
         else s2))"

text \<open>
  \<open>ApplyConfig\<close> starts the goroutine, calls the internal Alertmanager, waits for the
  goroutine and returns the internal Alertmanager's error. The goroutine works on the remote
  engine, the log, the clock and \<open>lastSync\<close>; the call in the method's own thread works on
  the internal engine. The two engines are separate objects: a method of one neither reads
  nor writes the state of the other, so the steps of the two threads commute and every
  interleaving ends in the same state. The model runs the goroutine first;
  \<open>ApplyConfig_internal_first\<close> below shows that running the internal call first gives the
  same result and state. Two \<open>ApplyConfig\<close> calls that overlap in time are outside the
  model.
\<close>

definition RemoteSecondary_ApplyConfig ::
  "Context \<Rightarrow> AlertConfiguration option \<Rightarrow> ('a, 'b) secondary \<Rightarrow> error option \<times> ('a, 'b) secondary" where
  "RemoteSecondary_ApplyConfig ctx config s =
     (let s1 = syncRemote ctx config s;
          (err, s2) = call_internal (Call_ApplyConfig ctx config)
                        (ApplyConfig (internal (fam s1)) ctx config) s1
      in (err, s2))"

definition RemoteSecondary_ApplyConfig_internal_first ::
  "Context \<Rightarrow> AlertConfiguration option \<Rightarrow> ('a, 'b) secondary \<Rightarrow> error option \<times> ('a, 'b) secondary" where
  "RemoteSecondary_ApplyConfig_internal_first ctx config s =
     (let (err, s1) = call_internal (Call_ApplyConfig ctx config)
                        (ApplyConfig (internal (fam s)) ctx config) s;
          s2 = syncRemote ctx config s1
      in (err, s2))"

text \<open>Every other method but \<open>StopAndWait\<close> hands its arguments to the internal
  Alertmanager and returns what it returns.\<close>

definition RemoteSecondary_SaveAndApplyConfig ::
  "Context \<Rightarrow> PostableUserConfig option \<Rightarrow> ('a, 'b) secondary \<Rightarrow> error option \<times> ('a, 'b) secondary" where
  "RemoteSecondary_SaveAndApplyConfig ctx config s =
     call_internal (Call_SaveAndApplyConfig ctx config)
       (SaveAndApplyConfig (internal (fam s)) ctx config) s"

definition RemoteSecondary_SaveAndApplyDefaultConfig ::
  "Context \<Rightarrow> ('a, 'b) secondary \<Rightarrow> error option \<times> ('a, 'b) secondary" where
  "RemoteSecondary_SaveAndApplyDefaultConfig ctx s =
     call_internal (Call_SaveAndApplyDefaultConfig ctx)
       (SaveAndApplyDefaultConfig (internal (fam s)) ctx) s"

definition RemoteSecondary_GetStatus ::
  "('a, 'b) secondary \<Rightarrow> GettableStatus \<times> ('a, 'b) secondary" where
  "RemoteSecondary_GetStatus s = call_internal Call_GetStatus (GetStatus (internal (fam s))) s"

definition RemoteSecondary_CreateSilence ::
  "Context \<Rightarrow> PostableSilence option \<Rightarrow> ('a, 'b) secondary
     \<Rightarrow> (string \<times> error option) \<times> ('a, 'b) secondary" where
  "RemoteSecondary_CreateSilence ctx silence s =
     call_internal (Call_CreateSilence ctx silence)
       (CreateSilence (internal (fam s)) ctx silence) s"

definition RemoteSecondary_DeleteSilence ::
  "Context \<Rightarrow> string \<Rightarrow> ('a, 'b) secondary \<Rightarrow> error option \<times> ('a, 'b) secondary" where
  "RemoteSecondary_DeleteSilence ctx id' s =
     call_internal (Call_DeleteSilence ctx id') (DeleteSilence (internal (fam s)) ctx id') s"

definition RemoteSecondary_GetSilence ::
  "Context \<Rightarrow> string \<Rightarrow> ('a, 'b) secondary
     \<Rightarrow> (GettableSilence \<times> error option) \<times> ('a, 'b) secondary" where
  "RemoteSecondary_GetSilence ctx id' s =
     call_internal (Call_GetSilence ctx id') (GetSilence (internal (fam s)) ctx id') s"

definition RemoteSecondary_ListSilences ::
  "Context \<Rightarrow> string list \<Rightarrow> ('a, 'b) secondary
     \<Rightarrow> (GettableSilences \<times> error option) \<times> ('a, 'b) secondary" where
  "RemoteSecondary_ListSilences ctx filter' s =
     call_internal (Call_ListSilences ctx filter')
       (ListSilences (internal (fam s)) ctx filter') s"

definition RemoteSecondary_GetAlerts ::
  "Context \<Rightarrow> bool \<Rightarrow> bool \<Rightarrow> bool \<Rightarrow> string list \<Rightarrow> string \<Rightarrow> ('a, 'b) secondary
     \<Rightarrow> (GettableAlerts \<times> error option) \<times> ('a, 'b) secondary" where
  "RemoteSecondary_GetAlerts ctx active silenced inhibited filter' receiver s =
     call_internal (Call_GetAlerts ctx active silenced inhibited filter' receiver)
       (GetAlerts (internal (fam s)) ctx active silenced inhibited filter' receiver) s"

definition RemoteSecondary_GetAlertGroups ::
  "Context \<Rightarrow> bool \<Rightarrow> bool \<Rightarrow> bool \<Rightarrow> string list \<Rightarrow> string \<Rightarrow> ('a, 'b) secondary
     \<Rightarrow> (AlertGroups \<times> error option) \<times> ('a, 'b) secondary" where
  "RemoteSecondary_GetAlertGroups ctx active silenced inhibited filter' receiver s =
     call_internal (Call_GetAlertGroups ctx active silenced inhibited filter' receiver)
       (GetAlertGroups (internal (fam s)) ctx active silenced inhibited filter' receiver) s"

definition RemoteSecondary_PutAlerts ::
  "Context \<Rightarrow> PostableAlerts \<Rightarrow> ('a, 'b) secondary \<Rightarrow> error option \<times> ('a, 'b) secondary" where
  "RemoteSecondary_PutAlerts ctx alerts s =
     call_internal (Call_PutAlerts ctx alerts) (PutAlerts (internal (fam s)) ctx alerts) s"

definition RemoteSecondary_GetReceivers ::
  "Context \<Rightarrow> ('a, 'b) secondary \<Rightarrow> (Receiver list \<times> error option) \<times> ('a, 'b) secondary" where
  "RemoteSecondary_GetReceivers ctx s =
     call_internal (Call_GetReceivers ctx) (GetReceivers (internal (fam s)) ctx) s"

definition RemoteSecondary_TestReceivers ::
  "Context \<Rightarrow> TestReceiversConfigBodyParams \<Rightarrow> ('a, 'b) secondary
     \<Rightarrow> (TestReceiversResult option \<times> error option) \<times> ('a, 'b) secondary" where
  "RemoteSecondary_TestReceivers ctx c s =
     call_internal (Call_TestReceivers ctx c) (TestReceivers (internal (fam s)) ctx c) s"

definition RemoteSecondary_TestTemplate ::
  "Context \<Rightarrow> TestTemplatesConfigBodyParams \<Rightarrow> ('a, 'b) secondary
     \<Rightarrow> (TestTemplatesResults option \<times> error option) \<times> ('a, 'b) secondary" where
  "RemoteSecondary_TestTemplate ctx c s =
     call_internal (Call_TestTemplate ctx c) (TestTemplate (internal (fam s)) ctx c) s"

definition RemoteSecondary_CleanUp :: "('a, 'b) secondary \<Rightarrow> unit \<times> ('a, 'b) secondary" where
  "RemoteSecondary_CleanUp s = call_internal Call_CleanUp (CleanUp (internal (fam s))) s"

definition RemoteSecondary_StopAndWait :: "('a, 'b) secondary \<Rightarrow> unit \<times> ('a, 'b) secondary" where
  "RemoteSecondary_StopAndWait s =
     (let (u, s1) = call_internal Call_StopAndWait (StopAndWait (internal (fam s))) s
      in call_remote Call_StopAndWait (StopAndWait (remote (fam s1))) s1)"

definition RemoteSecondary_Ready :: "('a, 'b) secondary \<Rightarrow> bool \<times> ('a, 'b) secondary" where
  "RemoteSecondary_Ready s = call_internal Call_Ready (Ready (internal (fam s))) s"

subsection \<open>The remote-primary coordinator\<close>

text \<open>
  Modelled from the spec: the type \<open>RemotePrimaryForkedAlertmanager\<close>, its constructor
  \<open>NewRemotePrimaryForkedAlertmanager\<close> and its methods are not in the source files that
  this development embeds; only their tests are. The specification gives the coordinator the same two engine
  references and no other state, sends every business operation (status, silences, alerts
  and alert groups, pushing alerts, receivers, the two tests, the two save-and-apply
  operations and \<open>ApplyConfig\<close>) to the remote engine and returns its result as it is, keeps
  \<open>CleanUp\<close> on the local engine, stops both engines in \<open>StopAndWait\<close>, and reports ready
  when both engines do.
\<close>

record ('a, 'b) RemotePrimaryForkedAlertmanager =
  primary_internal :: "'a Alertmanager"
  primary_remote :: "'b remoteAlertmanager"

text \<open>Modelled from the spec: the constructor takes the two engine references and stores
  them.\<close>

definition NewRemotePrimaryForkedAlertmanager ::
  "'a Alertmanager \<Rightarrow> 'b remoteAlertmanager \<Rightarrow> ('a, 'b) RemotePrimaryForkedAlertmanager" where
  "NewRemotePrimaryForkedAlertmanager internal' remote' =
     \<lparr>primary_internal = internal', primary_remote = remote'\<rparr>"

type_synonym ('a, 'b) primary = "(('a, 'b) RemotePrimaryForkedAlertmanager, 'a, 'b) sys"

text \<open>Modelled from the spec: \<open>ApplyConfig\<close> is forwarded to the remote engine and its result
  returned as it is.\<close>

definition RemotePrimary_ApplyConfig ::
  "Context \<Rightarrow> AlertConfiguration option \<Rightarrow> ('a, 'b) primary
     \<Rightarrow> error option \<times> ('a, 'b) primary" where
  "RemotePrimary_ApplyConfig ctx config s =
     call_remote (Call_ApplyConfig ctx config)
       (ApplyConfig (primary_remote (fam s)) ctx config) s"

text \<open>Modelled from the spec: \<open>SaveAndApplyConfig\<close> is forwarded to the remote engine and its result
  returned as it is.\<close>

definition RemotePrimary_SaveAndApplyConfig ::
  "Context \<Rightarrow> PostableUserConfig option \<Rightarrow> ('a, 'b) primary
     \<Rightarrow> error option \<times> ('a, 'b) primary" where
  "RemotePrimary_SaveAndApplyConfig ctx config s =
     call_remote (Call_SaveAndApplyConfig ctx config)
       (SaveAndApplyConfig (primary_remote (fam s)) ctx config) s"

text \<open>Modelled from the spec: \<open>SaveAndApplyDefaultConfig\<close> is forwarded to the remote engine and its result
  returned as it is.\<close>

definition RemotePrimary_SaveAndApplyDefaultConfig ::
  "Context \<Rightarrow> ('a, 'b) primary
     \<Rightarrow> error option \<times> ('a, 'b) primary" where
  "RemotePrimary_SaveAndApplyDefaultConfig ctx s =
     call_remote (Call_SaveAndApplyDefaultConfig ctx)
       (SaveAndApplyDefaultConfig (primary_remote (fam s)) ctx) s"

text \<open>Modelled from the spec: \<open>GetStatus\<close> is forwarded to the remote engine and its result
  returned as it is.\<close>

definition RemotePrimary_GetStatus ::
  "('a, 'b) primary
     \<Rightarrow> GettableStatus \<times> ('a, 'b) primary" where
  "RemotePrimary_GetStatus s =
     call_remote Call_GetStatus
       (GetStatus (primary_remote (fam s))) s"

text \<open>Modelled from the spec: \<open>CreateSilence\<close> is forwarded to the remote engine and its result
  returned as it is.\<close>

definition RemotePrimary_CreateSilence ::
  "Context \<Rightarrow> PostableSilence option \<Rightarrow> ('a, 'b) primary
     \<Rightarrow> (string \<times> error option) \<times> ('a, 'b) primary" where
  "RemotePrimary_CreateSilence ctx silence s =
     call_remote (Call_CreateSilence ctx silence)
       (CreateSilence (primary_remote (fam s)) ctx silence) s"

text \<open>Modelled from the spec: \<open>DeleteSilence\<close> is forwarded to the remote engine and its result
  returned as it is.\<close>

definition RemotePrimary_DeleteSilence ::
  "Context \<Rightarrow> string \<Rightarrow> ('a, 'b) primary
     \<Rightarrow> error option \<times> ('a, 'b) primary" where
  "RemotePrimary_DeleteSilence ctx id' s =
     call_remote (Call_DeleteSilence ctx id')
       (DeleteSilence (primary_remote (fam s)) ctx id') s"

text \<open>Modelled from the spec: \<open>GetSilence\<close> is forwarded to the remote engine and its result
  returned as it is.\<close>

definition RemotePrimary_GetSilence ::
  "Context \<Rightarrow> string \<Rightarrow> ('a, 'b) primary
     \<Rightarrow> (GettableSilence \<times> error option) \<times> ('a, 'b) primary" where
  "RemotePrimary_GetSilence ctx id' s =
     call_remote (Call_GetSilence ctx id')
       (GetSilence (primary_remote (fam s)) ctx id') s"

text \<open>Modelled from the spec: \<open>ListSilences\<close> is forwarded to the remote engine and its result
  returned as it is.\<close>

definition RemotePrimary_ListSilences ::
  "Context \<Rightarrow> string list \<Rightarrow> ('a, 'b) primary
     \<Rightarrow> (GettableSilences \<times> error option) \<times> ('a, 'b) primary" where
  "RemotePrimary_ListSilences ctx filter' s =
     call_remote (Call_ListSilences ctx filter')
       (ListSilences (primary_remote (fam s)) ctx filter') s"

text \<open>Modelled from the spec: \<open>GetAlerts\<close> is forwarded to the remote engine and its result
  returned as it is.\<close>

definition RemotePrimary_GetAlerts ::
  "Context \<Rightarrow> bool \<Rightarrow> bool \<Rightarrow> bool \<Rightarrow> string list \<Rightarrow> string \<Rightarrow> ('a, 'b) primary
     \<Rightarrow> (GettableAlerts \<times> error option) \<times> ('a, 'b) primary" where
  "RemotePrimary_GetAlerts ctx active silenced inhibited filter' receiver s =
     call_remote (Call_GetAlerts ctx active silenced inhibited filter' receiver)
       (GetAlerts (primary_remote (fam s)) ctx active silenced inhibited filter' receiver) s"

text \<open>Modelled from the spec: \<open>GetAlertGroups\<close> is forwarded to the remote engine and its result
  returned as it is.\<close>

definition RemotePrimary_GetAlertGroups ::
  "Context \<Rightarrow> bool \<Rightarrow> bool \<Rightarrow> bool \<Rightarrow> string list \<Rightarrow> string \<Rightarrow> ('a, 'b) primary
     \<Rightarrow> (AlertGroups \<times> error option) \<times> ('a, 'b) primary" where
  "RemotePrimary_GetAlertGroups ctx active silenced inhibited filter' receiver s =
     call_remote (Call_GetAlertGroups ctx active silenced inhibited filter' receiver)
       (GetAlertGroups (primary_remote (fam s)) ctx active silenced inhibited filter' receiver) s"

text \<open>Modelled from the spec: \<open>PutAlerts\<close> is forwarded to the remote engine and its result
  returned as it is.\<close>

definition RemotePrimary_PutAlerts ::
  "Context \<Rightarrow> PostableAlerts \<Rightarrow> ('a, 'b) primary
     \<Rightarrow> error option \<times> ('a, 'b) primary" where
  "RemotePrimary_PutAlerts ctx alerts s =
     call_remote (Call_PutAlerts ctx alerts)
       (PutAlerts (primary_remote (fam s)) ctx alerts) s"

text \<open>Modelled from the spec: \<open>GetReceivers\<close> is forwarded to the remote engine and its result
  returned as it is.\<close>

definition RemotePrimary_GetReceivers ::
  "Context \<Rightarrow> ('a, 'b) primary
     \<Rightarrow> (Receiver list \<times> error option) \<times> ('a, 'b) primary" where
  "RemotePrimary_GetReceivers ctx s =
     call_remote (Call_GetReceivers ctx)
       (GetReceivers (primary_remote (fam s)) ctx) s"

text \<open>Modelled from the spec: \<open>TestReceivers\<close> is forwarded to the remote engine and its result
  returned as it is.\<close>

definition RemotePrimary_TestReceivers ::
  "Context \<Rightarrow> TestReceiversConfigBodyParams \<Rightarrow> ('a, 'b) primary
     \<Rightarrow> (TestReceiversResult option \<times> error option) \<times> ('a, 'b) primary" where
  "RemotePrimary_TestReceivers ctx c s =
     call_remote (Call_TestReceivers ctx c)
       (TestReceivers (primary_remote (fam s)) ctx c) s"

text \<open>Modelled from the spec: \<open>TestTemplate\<close> is forwarded to the remote engine and its result
  returned as it is.\<close>

definition RemotePrimary_TestTemplate ::
  "Context \<Rightarrow> TestTemplatesConfigBodyParams \<Rightarrow> ('a, 'b) primary
     \<Rightarrow> (TestTemplatesResults option \<times> error option) \<times> ('a, 'b) primary" where
  "RemotePrimary_TestTemplate ctx c s =
     call_remote (Call_TestTemplate ctx c)
       (TestTemplate (primary_remote (fam s)) ctx c) s"

text \<open>Modelled from the spec: \<open>CleanUp\<close> is delegated to the local engine only.\<close>

definition RemotePrimary_CleanUp :: "('a, 'b) primary \<Rightarrow> unit \<times> ('a, 'b) primary" where
  "RemotePrimary_CleanUp s = call_internal Call_CleanUp (CleanUp (primary_internal (fam s))) s"

text \<open>Modelled from the spec: \<open>StopAndWait\<close> stops both engines, the local one first.\<close>

definition RemotePrimary_StopAndWait :: "('a, 'b) primary \<Rightarrow> unit \<times> ('a, 'b) primary" where
  "RemotePrimary_StopAndWait s =
     (let (u, s1) = call_internal Call_StopAndWait (StopAndWait (primary_internal (fam s))) s
      in call_remote Call_StopAndWait (StopAndWait (primary_remote (fam s1))) s1)"

text \<open>Modelled from the spec: \<open>Ready\<close> asks both engines and is true when both report
  ready.\<close>

definition RemotePrimary_Ready :: "('a, 'b) primary \<Rightarrow> bool \<times> ('a, 'b) primary" where
  "RemotePrimary_Ready s =
     (let (local_ready, s1) = call_internal Call_Ready (Ready (primary_internal (fam s))) s;
          (remote_ready, s2) = call_remote Call_Ready (Ready (primary_remote (fam s1))) s1
      in (local_ready \<and> remote_ready, s2))"

subsection \<open>What the engines answer\<close>

text \<open>
  The answers that the remote engine gives to the goroutine of \<open>ApplyConfig\<close> started in
  state \<open>s\<close>: whether it reports ready, the error of its \<open>ApplyConfig\<close>, and the errors of
  the two compare-and-send calls, each taken in the engine state that the calls before it
  have left. \<open>sync_due\<close> is the test on the time since \<open>lastSync\<close>, at the clock reading the
  goroutine takes.
\<close>

definition remote_ready :: "('a, 'b) secondary \<Rightarrow> bool" where
  "remote_ready s = fst (Ready (remote (fam s)) (remote_state s))"

definition after_ready :: "('a, 'b) secondary \<Rightarrow> 'b" where
  "after_ready s = snd (Ready (remote (fam s)) (remote_state s))"

definition probe_result :: "Context \<Rightarrow> AlertConfiguration option \<Rightarrow> ('a, 'b) secondary \<Rightarrow> error option" where
  "probe_result ctx config s = fst (ApplyConfig (remote (fam s)) ctx config (after_ready s))"

definition cfg_result :: "Context \<Rightarrow> AlertConfiguration option \<Rightarrow> ('a, 'b) secondary \<Rightarrow> error option" where
  "cfg_result ctx config s =
     fst (CompareAndSendConfiguration (remote (fam s)) ctx config (after_ready s))"

definition state_result :: "Context \<Rightarrow> AlertConfiguration option \<Rightarrow> ('a, 'b) secondary \<Rightarrow> error option" where
  "state_result ctx config s =
     fst (CompareAndSendState (remote (fam s)) ctx
            (snd (CompareAndSendConfiguration (remote (fam s)) ctx config (after_ready s))))"

definition sync_due :: "('a, 'b) secondary \<Rightarrow> bool" where
  "sync_due s = (time_Sub (clock s (ticks s)) (lastSync (fam s)) \<ge> syncInterval (fam s))"

subsection \<open>The state that a due synchronisation leaves\<close>

text \<open>The errors that the two compare-and-send calls log, and the state after both calls
  and their logging, before \<open>lastSync\<close> is looked at.\<close>

definition sync_errors_logged ::
  "Context \<Rightarrow> AlertConfiguration option \<Rightarrow> ('a, 'b) secondary \<Rightarrow> log_entry list" where
  "sync_errors_logged ctx config s =
     (case cfg_result ctx config s of
        None \<Rightarrow> []
      | Some e \<Rightarrow> [(log (fam s), LvlError,
                    ''Unable to upload the configuration to the remote Alertmanager'',
                    [(''err'', ErrValue e)])]) @
     (case state_result ctx config s of
        None \<Rightarrow> []
      | Some e \<Rightarrow> [(log (fam s), LvlError,
                    ''Unable to upload the state to the remote Alertmanager'',
                    [(''err'', ErrValue e)])])"

definition synced ::
  "Context \<Rightarrow> AlertConfiguration option \<Rightarrow> ('a, 'b) secondary \<Rightarrow> ('a, 'b) secondary" where
  "synced ctx config s =
     s\<lparr>remote_state :=
         snd (CompareAndSendState (remote (fam s)) ctx
           (snd (CompareAndSendConfiguration (remote (fam s)) ctx config (after_ready s)))),
       remote_calls := remote_calls s @
         [Call_Ready, Call_CompareAndSendConfiguration ctx config,
          Call_CompareAndSendState ctx],
       log_output := log_output s @
         [(log (fam s), LvlDebug,
           ''Syncing configuration and state with the remote Alertmanager'',
           [(''lastSync'', TimeValue (lastSync (fam s)))])] @
         sync_errors_logged ctx config s @
         [(log (fam s), LvlDebug,
           ''Finished syncing configuration and state with the remote Alertmanager'',
           [])]\<rparr>"

subsection \<open>Delegation to one engine\<close>

text \<open>
  \<open>only_internal c m s out\<close>: the outcome \<open>out\<close> of an operation started in state \<open>s\<close> is
  that of the single call \<open>c\<close> of method \<open>m\<close> on the internal engine: the result is the
  method's, the internal engine has received that call and nothing else, and the remote
  engine has received nothing. \<open>only_remote\<close> is the same with the engines exchanged.
\<close>

definition only_internal ::
  "call \<Rightarrow> ('a \<Rightarrow> 'r \<times> 'a) \<Rightarrow> ('f, 'a, 'b) sys \<Rightarrow> 'r \<times> ('f, 'a, 'b) sys \<Rightarrow> bool" where
  "only_internal c m s out =
     (fst out = fst (m (internal_state s)) \<and>
      internal_state (snd out) = snd (m (internal_state s)) \<and>
      internal_calls (snd out) = internal_calls s @ [c] \<and>
      remote_state (snd out) = remote_state s \<and>
      remote_calls (snd out) = remote_calls s)"

definition only_remote ::
  "call \<Rightarrow> ('b \<Rightarrow> 'r \<times> 'b) \<Rightarrow> ('f, 'a, 'b) sys \<Rightarrow> 'r \<times> ('f, 'a, 'b) sys \<Rightarrow> bool" where
  "only_remote c m s out =
     (fst out = fst (m (remote_state s)) \<and>
      remote_state (snd out) = snd (m (remote_state s)) \<and>
      remote_calls (snd out) = remote_calls s @ [c] \<and>
      internal_state (snd out) = internal_state s \<and>
      internal_calls (snd out) = internal_calls s)"

subsection \<open>Engines for concrete runs\<close>

text \<open>
  Engines in the manner of the test-suite's mocks. Every method returns a fixed answer,
  except \<open>Ready\<close>, whose answer may depend on the number of calls that the engine has
  received so far; the engine's state is that number.
\<close>

definition mock_Alertmanager :: "error option \<Rightarrow> (nat \<Rightarrow> bool) \<Rightarrow> nat Alertmanager" where
  "mock_Alertmanager err ready =
     \<lparr>ApplyConfig = (\<lambda>ctx config n. (err, Suc n)),
      SaveAndApplyConfig = (\<lambda>ctx config n. (err, Suc n)),
      SaveAndApplyDefaultConfig = (\<lambda>ctx n. (err, Suc n)),
      GetStatus = (\<lambda>n. (Payload ''status'', Suc n)),
      CreateSilence = (\<lambda>ctx silence n. ((''test-id'', err), Suc n)),
      DeleteSilence = (\<lambda>ctx i n. (err, Suc n)),
      GetSilence = (\<lambda>ctx i n. ((Payload ''silence'', err), Suc n)),
      ListSilences = (\<lambda>ctx f n. ((Payload ''silences'', err), Suc n)),
      GetAlerts = (\<lambda>ctx a b c f r n. ((Payload ''alerts'', err), Suc n)),
      GetAlertGroups = (\<lambda>ctx a b c f r n. ((Payload ''groups'', err), Suc n)),
      PutAlerts = (\<lambda>ctx alerts n. (err, Suc n)),
      GetReceivers = (\<lambda>ctx n. (([], err), Suc n)),
      TestReceivers = (\<lambda>ctx c n. ((None, err), Suc n)),
      TestTemplate = (\<lambda>ctx c n. ((None, err), Suc n)),
      CleanUp = (\<lambda>n. ((), Suc n)),
      StopAndWait = (\<lambda>n. ((), Suc n)),
      Ready = (\<lambda>n. (ready n, Suc n))\<rparr>"

definition mock_remoteAlertmanager ::
  "error option \<Rightarrow> (nat \<Rightarrow> bool) \<Rightarrow> error option \<Rightarrow> error option \<Rightarrow> nat remoteAlertmanager" where
  "mock_remoteAlertmanager err ready cfgErr stateErr =
     \<lparr>ApplyConfig = (\<lambda>ctx config n. (err, Suc n)),
      SaveAndApplyConfig = (\<lambda>ctx config n. (err, Suc n)),
      SaveAndApplyDefaultConfig = (\<lambda>ctx n. (err, Suc n)),
      GetStatus = (\<lambda>n. (Payload ''status'', Suc n)),
      CreateSilence = (\<lambda>ctx silence n. ((''test-id'', err), Suc n)),
      DeleteSilence = (\<lambda>ctx i n. (err, Suc n)),
      GetSilence = (\<lambda>ctx i n. ((Payload ''silence'', err), Suc n)),
      ListSilences = (\<lambda>ctx f n. ((Payload ''silences'', err), Suc n)),
      GetAlerts = (\<lambda>ctx a b c f r n. ((Payload ''alerts'', err), Suc n)),
      GetAlertGroups = (\<lambda>ctx a b c f r n. ((Payload ''groups'', err), Suc n)),
      PutAlerts = (\<lambda>ctx alerts n. (err, Suc n)),
      GetReceivers = (\<lambda>ctx n. (([], err), Suc n)),
      TestReceivers = (\<lambda>ctx c n. ((None, err), Suc n)),
      TestTemplate = (\<lambda>ctx c n. ((None, err), Suc n)),
      CleanUp = (\<lambda>n. ((), Suc n)),
      StopAndWait = (\<lambda>n. ((), Suc n)),
      Ready = (\<lambda>n. (ready n, Suc n)),
      CompareAndSendConfiguration = (\<lambda>ctx config n. (cfgErr, Suc n)),
      CompareAndSendState = (\<lambda>ctx n. (stateErr, Suc n))\<rparr>"

definition start :: "'f \<Rightarrow> (nat \<Rightarrow> Time) \<Rightarrow> ('f, nat, nat) sys" where
  "start f clk =
     \<lparr>fam = f, internal_state = 0, remote_state = 0, internal_calls = [], remote_calls = [],
      log_output = [], clock = clk, ticks = 0\<rparr>"

text \<open>
  The fixture of the tests (after \<open>genTestAlertmanagersWithSyncInterval\<close>, with the answers
  of the remote mock as parameters): a secondary coordinator built by the constructor with a no-op
  logger and the given interval, in front of an internal mock that succeeds and a remote
  mock with the given answers. The clock starts some 2025 years after Go's zero time and
  advances by one nanosecond at each reading.
\<close>

definition secondary_fixture ::
  "Duration \<Rightarrow> error option \<Rightarrow> (nat \<Rightarrow> bool) \<Rightarrow> error option \<Rightarrow> error option
     \<Rightarrow> (nat, nat) secondary" where
  "secondary_fixture interval err ready cfgErr stateErr =
     start (the (fst (NewRemoteSecondaryForkedAlertmanager
                        \<lparr>SyncInterval = interval, Logger = Some NopLogger\<rparr>
                        (mock_Alertmanager None (\<lambda>n. True))
                        (mock_remoteAlertmanager err ready cfgErr stateErr))))
       (\<lambda>n. 63900000000000000000 + int n)"

section \<open>Properties\<close>

subsection \<open>Calls, the clock and the log\<close>

lemma call_remote_eq:
  "call_remote c m s =
     (fst (m (remote_state s)),
      s\<lparr>remote_state := snd (m (remote_state s)), remote_calls := remote_calls s @ [c]\<rparr>)"
  by (simp add: call_remote_def case_prod_unfold Let_def)

lemma call_internal_eq:
  "call_internal c m s =
     (fst (m (internal_state s)),
      s\<lparr>internal_state := snd (m (internal_state s)), internal_calls := internal_calls s @ [c]\<rparr>)"
  by (simp add: call_internal_def case_prod_unfold Let_def)

lemma only_internal_call: "only_internal c m s (call_internal c m s)"
  by (simp add: only_internal_def call_internal_eq)

lemma only_remote_call: "only_remote c m s (call_remote c m s)"
  by (simp add: only_remote_def call_remote_eq)

lemma fam_call_internal: "fam (snd (call_internal c m s)) = fam s"
  by (simp add: call_internal_eq)

lemma fam_call_remote: "fam (snd (call_remote c m s)) = fam s"
  by (simp add: call_remote_eq)

lemma time_Sub_mono: "t \<le> t' \<Longrightarrow> time_Sub t u \<le> time_Sub t' u"
  by (simp add: time_Sub_def max_def min_def)

lemma interval_zero_due:
  "syncInterval (fam s) = 0 \<Longrightarrow> lastSync (fam s) \<le> clock s (ticks s) \<Longrightarrow> sync_due s"
  by (simp add: sync_due_def time_Sub_def maxDuration_def minDuration_def)

subsection \<open>The three branches of the goroutine\<close>

lemma syncRemote_not_ready:
  assumes "\<not> remote_ready s"
  shows "syncRemote ctx config s =
     (case probe_result ctx config s of
        None \<Rightarrow>
          s\<lparr>remote_state := snd (ApplyConfig (remote (fam s)) ctx config (after_ready s)),
            remote_calls := remote_calls s @ [Call_Ready, Call_ApplyConfig ctx config],
            ticks := Suc (ticks s),
            fam := (fam s)\<lparr>lastSync := clock s (ticks s)\<rparr>\<rparr>
      | Some e \<Rightarrow>
          s\<lparr>remote_state := snd (ApplyConfig (remote (fam s)) ctx config (after_ready s)),
            remote_calls := remote_calls s @ [Call_Ready, Call_ApplyConfig ctx config],
            log_output := log_output s @
              [(log (fam s), LvlError, ''Error applying config to the remote Alertmanager'',
                [(''err'', ErrValue e)])]\<rparr>)"
  using assms
  by (simp add: syncRemote_def remote_ready_def probe_result_def after_ready_def
      call_remote_eq time_Now_def log_write_def Let_def split: option.split)

lemma syncRemote_too_soon:
  assumes "remote_ready s" and "\<not> sync_due s"
  shows "syncRemote ctx config s =
     s\<lparr>remote_state := after_ready s,
       remote_calls := remote_calls s @ [Call_Ready],
       ticks := Suc (ticks s)\<rparr>"
  using assms
  by (simp add: syncRemote_def remote_ready_def sync_due_def after_ready_def
      call_remote_eq time_Now_def time_Since_def Let_def)

lemmas syncRemote_unfold =
  syncRemote_def remote_ready_def sync_due_def after_ready_def cfg_result_def state_result_def
  sync_errors_logged_def synced_def call_remote_eq time_Now_def time_Since_def log_write_def
  Let_def

lemma syncRemote_due:
  assumes "remote_ready s" and "sync_due s"
  shows "syncRemote ctx config s =
     (if cfg_result ctx config s = None \<and> state_result ctx config s = None
      then (synced ctx config s)\<lparr>ticks := Suc (Suc (ticks s)),
              fam := (fam s)\<lparr>lastSync := clock s (Suc (ticks s))\<rparr>\<rparr>
      else (synced ctx config s)\<lparr>ticks := Suc (ticks s)\<rparr>)"
proof (cases "cfg_result ctx config s")
  case cfg_ok: None
  show ?thesis
  proof (cases "state_result ctx config s")
    case None
    with cfg_ok assms show ?thesis by (simp add: syncRemote_unfold)
  next
    case (Some e)
    with cfg_ok assms show ?thesis by (simp add: syncRemote_unfold)
  qed
next
  case cfg_failed: (Some e)
  show ?thesis
  proof (cases "state_result ctx config s")
    case None
    with cfg_failed assms show ?thesis by (simp add: syncRemote_unfold)
  next
    case (Some e')
    with cfg_failed assms show ?thesis by (simp add: syncRemote_unfold)
  qed
qed

text \<open>The goroutine leaves the internal engine alone, and changes no field of the
  coordinator but \<open>lastSync\<close>.\<close>

lemma syncRemote_frame:
  "internal_state (syncRemote ctx config s) = internal_state s \<and>
   internal_calls (syncRemote ctx config s) = internal_calls s \<and>
   internal (fam (syncRemote ctx config s)) = internal (fam s) \<and>
   remote (fam (syncRemote ctx config s)) = remote (fam s) \<and>
   log (fam (syncRemote ctx config s)) = log (fam s) \<and>
   syncInterval (fam (syncRemote ctx config s)) = syncInterval (fam s) \<and>
   clock (syncRemote ctx config s) = clock s"
proof (cases "remote_ready s")
  case False
  then show ?thesis
    by (simp add: syncRemote_not_ready split: option.split)
next
  case True
  then show ?thesis
    by (cases "sync_due s") (simp_all add: syncRemote_due syncRemote_too_soon synced_def)
qed

lemma syncRemote_fam:
  "fam (syncRemote ctx config s) = (fam s)\<lparr>lastSync := lastSync (fam (syncRemote ctx config s))\<rparr>"
proof (cases "remote_ready s")
  case False
  then show ?thesis
    by (simp add: syncRemote_not_ready split: option.split)
next
  case True
  then show ?thesis
    by (cases "sync_due s") (simp_all add: syncRemote_due syncRemote_too_soon synced_def)
qed

subsection \<open>\<open>ApplyConfig\<close> as a whole\<close>

lemma ApplyConfig_eq:
  "RemoteSecondary_ApplyConfig ctx config s =
     (fst (ApplyConfig (internal (fam s)) ctx config (internal_state s)),
      (syncRemote ctx config s)
        \<lparr>internal_state := snd (ApplyConfig (internal (fam s)) ctx config (internal_state s)),
         internal_calls := internal_calls s @ [Call_ApplyConfig ctx config]\<rparr>)"
  by (simp add: RemoteSecondary_ApplyConfig_def call_internal_eq syncRemote_frame)

lemma ApplyConfig_fam_frame:
  "internal (fam (snd (RemoteSecondary_ApplyConfig ctx config s))) = internal (fam s)"
  "remote (fam (snd (RemoteSecondary_ApplyConfig ctx config s))) = remote (fam s)"
  "log (fam (snd (RemoteSecondary_ApplyConfig ctx config s))) = log (fam s)"
  "syncInterval (fam (snd (RemoteSecondary_ApplyConfig ctx config s))) = syncInterval (fam s)"
  "clock (snd (RemoteSecondary_ApplyConfig ctx config s)) = clock s"
  by (simp_all add: ApplyConfig_eq syncRemote_frame)

text \<open>The order in which the goroutine and the internal call run does not matter.\<close>

lemma observe_internal_update:
  "remote_ready (s\<lparr>internal_state := x, internal_calls := y\<rparr>) = remote_ready s"
  "sync_due (s\<lparr>internal_state := x, internal_calls := y\<rparr>) = sync_due s"
  "after_ready (s\<lparr>internal_state := x, internal_calls := y\<rparr>) = after_ready s"
  "probe_result ctx config (s\<lparr>internal_state := x, internal_calls := y\<rparr>) = probe_result ctx config s"
  "cfg_result ctx config (s\<lparr>internal_state := x, internal_calls := y\<rparr>) = cfg_result ctx config s"
  "state_result ctx config (s\<lparr>internal_state := x, internal_calls := y\<rparr>) = state_result ctx config s"
  by (simp_all add: remote_ready_def sync_due_def after_ready_def probe_result_def
      cfg_result_def state_result_def)

lemma sync_errors_logged_internal_update:
  "sync_errors_logged ctx config (s\<lparr>internal_state := x, internal_calls := y\<rparr>) =
   sync_errors_logged ctx config s"
  by (simp add: sync_errors_logged_def observe_internal_update split: option.split)

lemma syncRemote_internal_update:
  "syncRemote ctx config (s\<lparr>internal_state := x, internal_calls := y\<rparr>) =
   (syncRemote ctx config s)\<lparr>internal_state := x, internal_calls := y\<rparr>"
proof (cases "remote_ready s")
  case False
  then show ?thesis
    by (simp add: syncRemote_not_ready observe_internal_update split: option.split)
next
  case True
  then show ?thesis
    by (cases "sync_due s")
      (simp_all add: syncRemote_due syncRemote_too_soon synced_def observe_internal_update
        sync_errors_logged_internal_update)
qed

lemma ApplyConfig_internal_first:
  "RemoteSecondary_ApplyConfig_internal_first ctx config s = RemoteSecondary_ApplyConfig ctx config s"
  by (simp add: RemoteSecondary_ApplyConfig_internal_first_def ApplyConfig_eq call_internal_eq
      syncRemote_internal_update)

text \<open>
  With a clock that never goes back, \<open>lastSync\<close> is never later than the next reading of
  the clock: it is so for a new coordinator when the clock is past Go's zero time, and
  \<open>ApplyConfig\<close> keeps it so.
\<close>

lemma ApplyConfig_lastSync_past:
  assumes m: "mono (clock s)" and past: "lastSync (fam s) \<le> clock s (ticks s)"
  shows "lastSync (fam (snd (RemoteSecondary_ApplyConfig ctx config s)))
           \<le> clock (snd (RemoteSecondary_ApplyConfig ctx config s))
                (ticks (snd (RemoteSecondary_ApplyConfig ctx config s)))"
proof -
  have a: "clock s (ticks s) \<le> clock s (Suc (ticks s))"
    using m by (simp add: monoD)
  have b: "clock s (Suc (ticks s)) \<le> clock s (Suc (Suc (ticks s)))"
    using m by (simp add: monoD)
  show ?thesis
  proof (cases "remote_ready s")
    case False
    then show ?thesis
      using a past by (simp add: ApplyConfig_eq syncRemote_not_ready split: option.split)
  next
    case True
    then show ?thesis
      using a b past
      by (cases "sync_due s")
        (simp_all add: ApplyConfig_eq syncRemote_due syncRemote_too_soon synced_def)
  qed
qed


subsection \<open>The fixture\<close>

lemma fixture_fam:
  "fam (secondary_fixture interval err ready cfgErr stateErr) =
     \<lparr>log = NopLogger, internal = mock_Alertmanager None (\<lambda>n. True),
      remote = mock_remoteAlertmanager err ready cfgErr stateErr,
      lastSync = 0, syncInterval = interval\<rparr>"
  by (simp add: secondary_fixture_def start_def NewRemoteSecondaryForkedAlertmanager_def
      Validate_def)

lemma fixture_fields:
  "remote_calls (secondary_fixture interval err ready cfgErr stateErr) = []"
  "internal_calls (secondary_fixture interval err ready cfgErr stateErr) = []"
  "log_output (secondary_fixture interval err ready cfgErr stateErr) = []"
  "remote_state (secondary_fixture interval err ready cfgErr stateErr) = 0"
  "clock (secondary_fixture interval err ready cfgErr stateErr) = (\<lambda>n. 63900000000000000000 + int n)"
  "ticks (secondary_fixture interval err ready cfgErr stateErr) = 0"
  by (simp_all add: secondary_fixture_def start_def)

lemma fixture_answers:
  "remote_ready (secondary_fixture interval err ready cfgErr stateErr) = ready 0"
  "probe_result ctx config (secondary_fixture interval err ready cfgErr stateErr) = err"
  "cfg_result ctx config (secondary_fixture interval err ready cfgErr stateErr) = cfgErr"
  "state_result ctx config (secondary_fixture interval err ready cfgErr stateErr) = stateErr"
  by (simp_all add: remote_ready_def probe_result_def cfg_result_def state_result_def
      after_ready_def fixture_fam fixture_fields mock_remoteAlertmanager_def)

lemma fixture_due:
  "interval \<le> 9223372036854775807 \<Longrightarrow>
   sync_due (secondary_fixture interval err ready cfgErr stateErr)"
  by (simp add: sync_due_def fixture_fam fixture_fields time_Sub_def maxDuration_def
      minDuration_def)

subsection \<open>The claims about \<open>ApplyConfig\<close>\<close>

text \<open>
  C1: when the remote engine is ready, the sync interval has elapsed and exactly one of
  \<open>CompareAndSendConfiguration\<close> and \<open>CompareAndSendState\<close> returns an error, \<open>ApplyConfig\<close>
  leaves \<open>lastSync\<close> as it was; and the next \<open>ApplyConfig\<close>, on a coordinator that nothing
  has touched in between, at a clock reading not earlier than that of the first call and
  with the remote engine ready, makes both compare-and-send calls again, whatever the sync
  interval is.
\<close>

theorem partial_failure_retries:
  assumes ready: "remote_ready s" and due: "sync_due s"
    and one: "(cfg_result ctx config s = None) \<noteq> (state_result ctx config s = None)"
    and same: "fam s' = fam (snd (RemoteSecondary_ApplyConfig ctx config s))"
    and later: "clock s (ticks s) \<le> clock s' (ticks s')"
    and ready': "remote_ready s'"
  shows "lastSync (fam (snd (RemoteSecondary_ApplyConfig ctx config s))) = lastSync (fam s) \<and>
         remote_calls (snd (RemoteSecondary_ApplyConfig ctx' config' s')) =
           remote_calls s' @ [Call_Ready, Call_CompareAndSendConfiguration ctx' config',
                              Call_CompareAndSendState ctx']"
proof -
  have unchanged: "lastSync (fam (snd (RemoteSecondary_ApplyConfig ctx config s))) = lastSync (fam s)"
    using ready due one by (auto simp add: ApplyConfig_eq syncRemote_due synced_def)
  have "syncInterval (fam s') = syncInterval (fam s)"
    using same by (simp add: ApplyConfig_fam_frame)
  moreover have "lastSync (fam s') = lastSync (fam s)"
    using same unchanged by simp
  moreover have "time_Sub (clock s (ticks s)) (lastSync (fam s))
                  \<le> time_Sub (clock s' (ticks s')) (lastSync (fam s))"
    using later by (rule time_Sub_mono)
  ultimately have "sync_due s'"
    using due by (simp add: sync_due_def)
  with ready' have "remote_calls (snd (RemoteSecondary_ApplyConfig ctx' config' s')) =
           remote_calls s' @ [Call_Ready, Call_CompareAndSendConfiguration ctx' config',
                              Call_CompareAndSendState ctx']"
    by (simp add: ApplyConfig_eq syncRemote_due synced_def)
  with unchanged show ?thesis by simp
qed

text \<open>The third block of the test, second half: an interval of ten minutes, a ready remote
  engine whose \<open>CompareAndSendConfiguration\<close> fails, and two calls in a row.\<close>

theorem partial_failure_retries_witness:
  "lastSync (fam (snd (RemoteSecondary_ApplyConfig (Payload ''ctx'') (Some (Payload ''cfg''))
     (secondary_fixture 600000000000 None (\<lambda>n. True) (Some (Error ''test error'')) None)))) = 0 \<and>
   remote_calls (snd (RemoteSecondary_ApplyConfig (Payload ''ctx'') (Some (Payload ''cfg''))
     (snd (RemoteSecondary_ApplyConfig (Payload ''ctx'') (Some (Payload ''cfg''))
        (secondary_fixture 600000000000 None (\<lambda>n. True) (Some (Error ''test error'')) None))))) =
   [Call_Ready, Call_CompareAndSendConfiguration (Payload ''ctx'') (Some (Payload ''cfg'')),
    Call_CompareAndSendState (Payload ''ctx''),
    Call_Ready, Call_CompareAndSendConfiguration (Payload ''ctx'') (Some (Payload ''cfg'')),
    Call_CompareAndSendState (Payload ''ctx'')]"
  (is "lastSync (fam (snd (?f ?s))) = 0 \<and> remote_calls (snd (?f (snd (?f ?s)))) = _")
proof -
  have ready: "remote_ready ?s"
    by (simp add: fixture_answers)
  have due: "sync_due ?s"
    by (simp add: fixture_due)
  have one: "(cfg_result (Payload ''ctx'') (Some (Payload ''cfg'')) ?s = None) \<noteq>
             (state_result (Payload ''ctx'') (Some (Payload ''cfg'')) ?s = None)"
    by (simp add: fixture_answers)
  have later: "clock ?s (ticks ?s) \<le> clock (snd (?f ?s)) (ticks (snd (?f ?s)))"
    using ready due
    by (simp add: ApplyConfig_eq syncRemote_due synced_def fixture_answers fixture_fields)
  have ready': "remote_ready (snd (?f ?s))"
    using ready due
    by (simp add: ApplyConfig_eq syncRemote_due synced_def fixture_answers remote_ready_def
        fixture_fam mock_remoteAlertmanager_def)
  have calls: "remote_calls (snd (?f ?s)) =
     [Call_Ready, Call_CompareAndSendConfiguration (Payload ''ctx'') (Some (Payload ''cfg'')),
      Call_CompareAndSendState (Payload ''ctx'')]"
    using ready due
    by (simp add: ApplyConfig_eq syncRemote_due synced_def fixture_answers fixture_fields)
  from partial_failure_retries [OF ready due one refl later ready',
      of "Payload ''ctx''" "Some (Payload ''cfg'')"]
  show ?thesis
    by (simp add: calls fixture_fam)
qed

text \<open>
  C2: when the remote engine reports ready and the time since \<open>lastSync\<close> is at least the
  sync interval, \<open>ApplyConfig\<close> calls \<open>CompareAndSendConfiguration\<close> and then
  \<open>CompareAndSendState\<close> on the remote engine, whatever the first returns, and \<open>lastSync\<close>
  becomes the current time if both succeed and stays as it is otherwise. With an interval of
  zero the time test holds whenever \<open>lastSync\<close> is not later than the clock.
\<close>

theorem due_sync_sends_both:
  "(syncInterval (fam s) = 0 \<and> lastSync (fam s) \<le> clock s (ticks s) \<longrightarrow> sync_due s) \<and>
   (remote_ready s \<and> sync_due s \<longrightarrow>
      remote_calls (snd (RemoteSecondary_ApplyConfig ctx config s)) =
        remote_calls s @ [Call_Ready, Call_CompareAndSendConfiguration ctx config,
                          Call_CompareAndSendState ctx] \<and>
      lastSync (fam (snd (RemoteSecondary_ApplyConfig ctx config s))) =
        (if cfg_result ctx config s = None \<and> state_result ctx config s = None
         then clock s (Suc (ticks s)) else lastSync (fam s)))"
  by (simp add: interval_zero_due ApplyConfig_eq syncRemote_due synced_def)

text \<open>The second block of the test: an interval of zero and a remote engine that is ready
  and succeeds.\<close>

theorem due_sync_sends_both_witness:
  "syncInterval (fam (secondary_fixture 0 None (\<lambda>n. True) None None)) = 0 \<and>
   remote_ready (secondary_fixture 0 None (\<lambda>n. True) None None) \<and>
   sync_due (secondary_fixture 0 None (\<lambda>n. True) None None) \<and>
   remote_calls (snd (RemoteSecondary_ApplyConfig (Payload ''ctx'') (Some (Payload ''cfg''))
     (secondary_fixture 0 None (\<lambda>n. True) None None))) =
     [Call_Ready, Call_CompareAndSendConfiguration (Payload ''ctx'') (Some (Payload ''cfg'')),
      Call_CompareAndSendState (Payload ''ctx'')] \<and>
   lastSync (fam (snd (RemoteSecondary_ApplyConfig (Payload ''ctx'') (Some (Payload ''cfg''))
     (secondary_fixture 0 None (\<lambda>n. True) None None)))) = 63900000000000000001"
  (is "syncInterval (fam ?s) = 0 \<and> _")
proof -
  have zero: "syncInterval (fam ?s) = 0"
    by (simp add: fixture_fam)
  have past: "lastSync (fam ?s) \<le> clock ?s (ticks ?s)"
    by (simp add: fixture_fam fixture_fields)
  have ready: "remote_ready ?s"
    by (simp add: fixture_answers)
  note inst = due_sync_sends_both [of ?s "Payload ''ctx''" "Some (Payload ''cfg'')"]
  from inst zero past have due: "sync_due ?s"
    by blast
  from inst ready due zero show ?thesis
    by (simp add: fixture_answers fixture_fields)
qed

text \<open>
  C3: when the remote engine reports not ready, \<open>ApplyConfig\<close> calls the remote engine's
  \<open>ApplyConfig\<close> once, after \<open>Ready\<close>, and makes no other call to it. If that call succeeds,
  \<open>lastSync\<close> becomes the current time and nothing is logged; if it fails, the error is
  logged and \<open>lastSync\<close> stays as it is.
\<close>

theorem not_ready_probes_remote:
  assumes "\<not> remote_ready s"
  shows "remote_calls (snd (RemoteSecondary_ApplyConfig ctx config s)) =
           remote_calls s @ [Call_Ready, Call_ApplyConfig ctx config] \<and>
         (case probe_result ctx config s of
            None \<Rightarrow>
              lastSync (fam (snd (RemoteSecondary_ApplyConfig ctx config s))) = clock s (ticks s) \<and>
              log_output (snd (RemoteSecondary_ApplyConfig ctx config s)) = log_output s
          | Some e \<Rightarrow>
              lastSync (fam (snd (RemoteSecondary_ApplyConfig ctx config s))) = lastSync (fam s) \<and>
              log_output (snd (RemoteSecondary_ApplyConfig ctx config s)) =
                log_output s @
                  [(log (fam s), LvlError, ''Error applying config to the remote Alertmanager'',
                    [(''err'', ErrValue e)])])"
  using assms by (simp add: ApplyConfig_eq syncRemote_not_ready split: option.split)

text \<open>The third block of the test, first half: a remote engine that is not ready and whose
  \<open>ApplyConfig\<close> fails.\<close>

theorem not_ready_probes_remote_witness:
  "\<not> remote_ready (secondary_fixture 600000000000 (Some (Error ''test error'')) (\<lambda>n. False) None None) \<and>
   remote_calls (snd (RemoteSecondary_ApplyConfig (Payload ''ctx'') (Some (Payload ''cfg''))
      (secondary_fixture 600000000000 (Some (Error ''test error'')) (\<lambda>n. False) None None))) =
     [Call_Ready, Call_ApplyConfig (Payload ''ctx'') (Some (Payload ''cfg''))] \<and>
   lastSync (fam (snd (RemoteSecondary_ApplyConfig (Payload ''ctx'') (Some (Payload ''cfg''))
      (secondary_fixture 600000000000 (Some (Error ''test error'')) (\<lambda>n. False) None None)))) = 0 \<and>
   log_output (snd (RemoteSecondary_ApplyConfig (Payload ''ctx'') (Some (Payload ''cfg''))
      (secondary_fixture 600000000000 (Some (Error ''test error'')) (\<lambda>n. False) None None))) =
     [(NopLogger, LvlError, ''Error applying config to the remote Alertmanager'',
       [(''err'', ErrValue (Error ''test error''))])]"
  (is "\<not> remote_ready ?s \<and> _")
proof -
  have h: "\<not> remote_ready ?s"
    by (simp add: fixture_answers)
  show ?thesis
    using h not_ready_probes_remote [OF h, of "Payload ''ctx''" "Some (Payload ''cfg'')"]
    by (simp add: fixture_answers fixture_fields fixture_fam)
qed

text \<open>
  C4: when the remote engine reports ready and the time since \<open>lastSync\<close> is less than the
  sync interval, \<open>ApplyConfig\<close> makes no call to the remote engine after \<open>Ready\<close> (neither
  compare-and-send call, nor \<open>ApplyConfig\<close>), leaves \<open>lastSync\<close> as it was, logs nothing, and
  calls \<open>ApplyConfig\<close> on the internal engine.
\<close>

theorem too_soon_no_sync:
  assumes "remote_ready s" and "\<not> sync_due s"
  shows "remote_calls (snd (RemoteSecondary_ApplyConfig ctx config s)) = remote_calls s @ [Call_Ready] \<and>
         lastSync (fam (snd (RemoteSecondary_ApplyConfig ctx config s))) = lastSync (fam s) \<and>
         internal_calls (snd (RemoteSecondary_ApplyConfig ctx config s)) =
           internal_calls s @ [Call_ApplyConfig ctx config] \<and>
         log_output (snd (RemoteSecondary_ApplyConfig ctx config s)) = log_output s"
  using assms by (simp add: ApplyConfig_eq syncRemote_too_soon)

text \<open>The first block of the test: an interval of ten minutes and a remote engine that is
  not ready at the first call, accepts the configuration, and is ready at the second call,
  two nanoseconds later.\<close>

theorem too_soon_no_sync_witness:
  "remote_calls (snd (RemoteSecondary_ApplyConfig (Payload ''ctx'') (Some (Payload ''cfg''))
     (snd (RemoteSecondary_ApplyConfig (Payload ''ctx'') (Some (Payload ''cfg''))
        (secondary_fixture 600000000000 None (\<lambda>n. 0 < n) None None))))) =
     [Call_Ready, Call_ApplyConfig (Payload ''ctx'') (Some (Payload ''cfg'')), Call_Ready] \<and>
   lastSync (fam (snd (RemoteSecondary_ApplyConfig (Payload ''ctx'') (Some (Payload ''cfg''))
     (snd (RemoteSecondary_ApplyConfig (Payload ''ctx'') (Some (Payload ''cfg''))
        (secondary_fixture 600000000000 None (\<lambda>n. 0 < n) None None)))))) = 63900000000000000000"
  (is "remote_calls (snd (?f (snd (?f ?s)))) = _ \<and> _")
proof -
  have first: "\<not> remote_ready ?s"
    by (simp add: fixture_answers)
  have st: "remote_state (snd (?f ?s)) = 2"
    using first
    by (simp add: ApplyConfig_eq syncRemote_not_ready fixture_answers fixture_fields
        fixture_fam after_ready_def mock_remoteAlertmanager_def)
  have fm: "fam (snd (?f ?s)) = (fam ?s)\<lparr>lastSync := 63900000000000000000\<rparr>"
    using first
    by (simp add: ApplyConfig_eq syncRemote_not_ready fixture_answers fixture_fields)
  have tk: "ticks (snd (?f ?s)) = 1"
    using first
    by (simp add: ApplyConfig_eq syncRemote_not_ready fixture_answers fixture_fields)
  have ck: "clock (snd (?f ?s)) = (\<lambda>n. 63900000000000000000 + int n)"
    by (simp add: ApplyConfig_fam_frame fixture_fields)
  have rc: "remote_calls (snd (?f ?s)) =
              [Call_Ready, Call_ApplyConfig (Payload ''ctx'') (Some (Payload ''cfg''))]"
    using first
    by (simp add: ApplyConfig_eq syncRemote_not_ready fixture_answers fixture_fields)
  have ready: "remote_ready (snd (?f ?s))"
    by (simp add: remote_ready_def st fm fixture_fam mock_remoteAlertmanager_def)
  have soon: "\<not> sync_due (snd (?f ?s))"
    by (simp add: sync_due_def fm tk ck fixture_fam time_Sub_def maxDuration_def
        minDuration_def)
  from too_soon_no_sync [OF ready soon, of "Payload ''ctx''" "Some (Payload ''cfg'')"]
  show ?thesis
    by (simp add: rc fm)
qed

text \<open>
  C5: the value returned by the secondary coordinator's \<open>ApplyConfig\<close> is the error (or nil)
  that the internal Alertmanager's \<open>ApplyConfig\<close> returns for the same arguments, whatever the
  remote Alertmanager's readiness and whatever its \<open>ApplyConfig\<close>,
  \<open>CompareAndSendConfiguration\<close> and \<open>CompareAndSendState\<close> return.
\<close>

theorem ApplyConfig_returns_internal_error:
  "fst (RemoteSecondary_ApplyConfig ctx config s) =
   fst (ApplyConfig (internal (fam s)) ctx config (internal_state s))"
  by (simp add: ApplyConfig_eq)

subsection \<open>The other methods of the secondary coordinator\<close>

lemmas RemoteSecondary_delegating_defs =
  RemoteSecondary_SaveAndApplyConfig_def RemoteSecondary_SaveAndApplyDefaultConfig_def
  RemoteSecondary_GetStatus_def RemoteSecondary_CreateSilence_def
  RemoteSecondary_DeleteSilence_def RemoteSecondary_GetSilence_def
  RemoteSecondary_ListSilences_def RemoteSecondary_GetAlerts_def
  RemoteSecondary_GetAlertGroups_def RemoteSecondary_PutAlerts_def
  RemoteSecondary_GetReceivers_def RemoteSecondary_TestReceivers_def
  RemoteSecondary_TestTemplate_def RemoteSecondary_CleanUp_def RemoteSecondary_Ready_def

lemma fam_StopAndWait: "fam (snd (RemoteSecondary_StopAndWait s)) = fam s"
  by (simp add: RemoteSecondary_StopAndWait_def case_prod_unfold fam_call_internal
      fam_call_remote)

text \<open>
  C7: each of \<open>SaveAndApplyConfig\<close>, \<open>SaveAndApplyDefaultConfig\<close>, \<open>GetStatus\<close>,
  \<open>CreateSilence\<close>, \<open>DeleteSilence\<close>, \<open>GetSilence\<close>, \<open>ListSilences\<close>, \<open>GetAlerts\<close>,
  \<open>GetAlertGroups\<close>, \<open>PutAlerts\<close>, \<open>GetReceivers\<close>, \<open>TestReceivers\<close>, \<open>TestTemplate\<close>,
  \<open>CleanUp\<close> and \<open>Ready\<close> of the secondary coordinator makes the one call of the same name,
  with the same arguments, to the internal engine, returns what that call returns, and
  makes no call to the remote engine.
\<close>

theorem secondary_delegates_to_internal:
  fixes s :: "('a, 'b) secondary"
  shows
  "only_internal (Call_SaveAndApplyConfig ctx ucfg)
     (SaveAndApplyConfig (internal (fam s)) ctx ucfg) s
     (RemoteSecondary_SaveAndApplyConfig ctx ucfg s) \<and>
   only_internal (Call_SaveAndApplyDefaultConfig ctx)
     (SaveAndApplyDefaultConfig (internal (fam s)) ctx) s
     (RemoteSecondary_SaveAndApplyDefaultConfig ctx s) \<and>
   only_internal Call_GetStatus
     (GetStatus (internal (fam s))) s
     (RemoteSecondary_GetStatus s) \<and>
   only_internal (Call_CreateSilence ctx silence)
     (CreateSilence (internal (fam s)) ctx silence) s
     (RemoteSecondary_CreateSilence ctx silence s) \<and>
   only_internal (Call_DeleteSilence ctx sid)
     (DeleteSilence (internal (fam s)) ctx sid) s
     (RemoteSecondary_DeleteSilence ctx sid s) \<and>
   only_internal (Call_GetSilence ctx sid)
     (GetSilence (internal (fam s)) ctx sid) s
     (RemoteSecondary_GetSilence ctx sid s) \<and>
   only_internal (Call_ListSilences ctx flt)
     (ListSilences (internal (fam s)) ctx flt) s
     (RemoteSecondary_ListSilences ctx flt s) \<and>
   only_internal (Call_GetAlerts ctx active silenced inhibited flt receiver)
     (GetAlerts (internal (fam s)) ctx active silenced inhibited flt receiver) s
     (RemoteSecondary_GetAlerts ctx active silenced inhibited flt receiver s) \<and>
   only_internal (Call_GetAlertGroups ctx active silenced inhibited flt receiver)
     (GetAlertGroups (internal (fam s)) ctx active silenced inhibited flt receiver) s
     (RemoteSecondary_GetAlertGroups ctx active silenced inhibited flt receiver s) \<and>
   only_internal (Call_PutAlerts ctx alerts)
     (PutAlerts (internal (fam s)) ctx alerts) s
     (RemoteSecondary_PutAlerts ctx alerts s) \<and>
   only_internal (Call_GetReceivers ctx)
     (GetReceivers (internal (fam s)) ctx) s
     (RemoteSecondary_GetReceivers ctx s) \<and>
   only_internal (Call_TestReceivers ctx rparams)
     (TestReceivers (internal (fam s)) ctx rparams) s
     (RemoteSecondary_TestReceivers ctx rparams s) \<and>
   only_internal (Call_TestTemplate ctx tparams)
     (TestTemplate (internal (fam s)) ctx tparams) s
     (RemoteSecondary_TestTemplate ctx tparams s) \<and>
   only_internal Call_CleanUp
     (CleanUp (internal (fam s))) s
     (RemoteSecondary_CleanUp s) \<and>
   only_internal Call_Ready
     (Ready (internal (fam s))) s
     (RemoteSecondary_Ready s)"
  unfolding RemoteSecondary_delegating_defs
  by (intro conjI only_internal_call)

text \<open>
  C10: \<open>lastSync\<close> changes only in the goroutine of \<open>ApplyConfig\<close>. The coordinator after
  \<open>ApplyConfig\<close> is the one that the goroutine leaves, and the goroutine changes no field
  but \<open>lastSync\<close>; every other method (\<open>SaveAndApplyConfig\<close>, \<open>SaveAndApplyDefaultConfig\<close>,
  \<open>GetStatus\<close>, the four silence methods, \<open>GetAlerts\<close>, \<open>GetAlertGroups\<close>, \<open>PutAlerts\<close>,
  \<open>GetReceivers\<close>, \<open>TestReceivers\<close>, \<open>TestTemplate\<close>, \<open>CleanUp\<close>, \<open>StopAndWait\<close>, \<open>Ready\<close>)
  leaves the whole coordinator (\<open>lastSync\<close>, \<open>syncInterval\<close>, the logger and the two engine
  references) as it was.
\<close>

theorem secondary_coordinator_frame:
  fixes s :: "('a, 'b) secondary"
  shows
  "fam (snd (RemoteSecondary_ApplyConfig ctx config s)) = fam (syncRemote ctx config s) \<and>
   fam (syncRemote ctx config s) =
     (fam s)\<lparr>lastSync := lastSync (fam (syncRemote ctx config s))\<rparr> \<and>
   fam (snd (RemoteSecondary_SaveAndApplyConfig ctx ucfg s)) = fam s \<and>
   fam (snd (RemoteSecondary_SaveAndApplyDefaultConfig ctx s)) = fam s \<and>
   fam (snd (RemoteSecondary_GetStatus s)) = fam s \<and>
   fam (snd (RemoteSecondary_CreateSilence ctx silence s)) = fam s \<and>
   fam (snd (RemoteSecondary_DeleteSilence ctx sid s)) = fam s \<and>
   fam (snd (RemoteSecondary_GetSilence ctx sid s)) = fam s \<and>
   fam (snd (RemoteSecondary_ListSilences ctx flt s)) = fam s \<and>
   fam (snd (RemoteSecondary_GetAlerts ctx active silenced inhibited flt receiver s)) = fam s \<and>
   fam (snd (RemoteSecondary_GetAlertGroups ctx active silenced inhibited flt receiver s)) = fam s \<and>
   fam (snd (RemoteSecondary_PutAlerts ctx alerts s)) = fam s \<and>
   fam (snd (RemoteSecondary_GetReceivers ctx s)) = fam s \<and>
   fam (snd (RemoteSecondary_TestReceivers ctx rparams s)) = fam s \<and>
   fam (snd (RemoteSecondary_TestTemplate ctx tparams s)) = fam s \<and>
   fam (snd (RemoteSecondary_CleanUp s)) = fam s \<and>
   fam (snd (RemoteSecondary_StopAndWait s)) = fam s \<and>
   fam (snd (RemoteSecondary_Ready s)) = fam s"
proof -
  have a: "fam (snd (RemoteSecondary_ApplyConfig ctx config s)) = fam (syncRemote ctx config s)"
    by (simp add: ApplyConfig_eq)
  have b: "fam (syncRemote ctx config s) =
             (fam s)\<lparr>lastSync := lastSync (fam (syncRemote ctx config s))\<rparr>"
    by (rule syncRemote_fam)
  show ?thesis
    unfolding RemoteSecondary_delegating_defs
    by (intro conjI a b fam_call_internal fam_StopAndWait)
qed

subsection \<open>The constructor\<close>

text \<open>
  C9: \<open>NewRemoteSecondaryForkedAlertmanager\<close> returns no coordinator and the error
  \<open>logger cannot be nil\<close> when the logger of the configuration is nil; for a configuration
  with a logger and any sync interval it returns, with no error, a coordinator that holds
  that logger, that interval, the two engines, and the zero time as \<open>lastSync\<close>. So the
  constructor fails exactly when the logger is nil.
\<close>

theorem NewRemoteSecondaryForkedAlertmanager_validates:
  "NewRemoteSecondaryForkedAlertmanager \<lparr>SyncInterval = d, Logger = None\<rparr> i r =
     (None, Some (Error ''logger cannot be nil'')) \<and>
   NewRemoteSecondaryForkedAlertmanager \<lparr>SyncInterval = d, Logger = Some l\<rparr> i r =
     (Some \<lparr>log = l, internal = i, remote = r, lastSync = 0, syncInterval = d\<rparr>, None) \<and>
   ((fst (NewRemoteSecondaryForkedAlertmanager cfg i r) = None) = (Logger cfg = None)) \<and>
   ((snd (NewRemoteSecondaryForkedAlertmanager cfg i r) = None) = (Logger cfg \<noteq> None))"
  by (simp add: NewRemoteSecondaryForkedAlertmanager_def Validate_def)

subsection \<open>The primary coordinator\<close>

lemmas RemotePrimary_delegating_defs =
  RemotePrimary_ApplyConfig_def RemotePrimary_SaveAndApplyConfig_def
  RemotePrimary_SaveAndApplyDefaultConfig_def
  RemotePrimary_GetStatus_def RemotePrimary_CreateSilence_def
  RemotePrimary_DeleteSilence_def RemotePrimary_GetSilence_def
  RemotePrimary_ListSilences_def RemotePrimary_GetAlerts_def
  RemotePrimary_GetAlertGroups_def RemotePrimary_PutAlerts_def
  RemotePrimary_GetReceivers_def RemotePrimary_TestReceivers_def
  RemotePrimary_TestTemplate_def RemotePrimary_CleanUp_def

text \<open>
  C6: each business operation of the primary coordinator (\<open>GetStatus\<close>, \<open>CreateSilence\<close>,
  \<open>DeleteSilence\<close>, \<open>GetSilence\<close>, \<open>ListSilences\<close>, \<open>GetAlerts\<close>, \<open>GetAlertGroups\<close>,
  \<open>PutAlerts\<close>, \<open>GetReceivers\<close>, \<open>TestReceivers\<close>, \<open>TestTemplate\<close>, \<open>SaveAndApplyConfig\<close>,
  \<open>SaveAndApplyDefaultConfig\<close>, \<open>ApplyConfig\<close>) makes the one call of the same name, with
  the same arguments, to the remote engine and no other call to it, returns what that call
  returns, and makes no call to the local engine; \<open>CleanUp\<close> makes its one call to the local
  engine and none to the remote engine.
\<close>

theorem primary_delegates_to_remote:
  fixes s :: "('a, 'b) primary"
  shows
  "only_remote Call_GetStatus
     (GetStatus (primary_remote (fam s))) s
     (RemotePrimary_GetStatus s) \<and>
   only_remote (Call_CreateSilence ctx silence)
     (CreateSilence (primary_remote (fam s)) ctx silence) s
     (RemotePrimary_CreateSilence ctx silence s) \<and>
   only_remote (Call_DeleteSilence ctx sid)
     (DeleteSilence (primary_remote (fam s)) ctx sid) s
     (RemotePrimary_DeleteSilence ctx sid s) \<and>
   only_remote (Call_GetSilence ctx sid)
     (GetSilence (primary_remote (fam s)) ctx sid) s
     (RemotePrimary_GetSilence ctx sid s) \<and>
   only_remote (Call_ListSilences ctx flt)
     (ListSilences (primary_remote (fam s)) ctx flt) s
     (RemotePrimary_ListSilences ctx flt s) \<and>
   only_remote (Call_GetAlerts ctx active silenced inhibited flt receiver)
     (GetAlerts (primary_remote (fam s)) ctx active silenced inhibited flt receiver) s
     (RemotePrimary_GetAlerts ctx active silenced inhibited flt receiver s) \<and>
   only_remote (Call_GetAlertGroups ctx active silenced inhibited flt receiver)
     (GetAlertGroups (primary_remote (fam s)) ctx active silenced inhibited flt receiver) s
     (RemotePrimary_GetAlertGroups ctx active silenced inhibited flt receiver s) \<and>
   only_remote (Call_PutAlerts ctx alerts)
     (PutAlerts (primary_remote (fam s)) ctx alerts) s
     (RemotePrimary_PutAlerts ctx alerts s) \<and>
   only_remote (Call_GetReceivers ctx)
     (GetReceivers (primary_remote (fam s)) ctx) s
     (RemotePrimary_GetReceivers ctx s) \<and>
   only_remote (Call_TestReceivers ctx rparams)
     (TestReceivers (primary_remote (fam s)) ctx rparams) s
     (RemotePrimary_TestReceivers ctx rparams s) \<and>
   only_remote (Call_TestTemplate ctx tparams)
     (TestTemplate (primary_remote (fam s)) ctx tparams) s
     (RemotePrimary_TestTemplate ctx tparams s) \<and>
   only_remote (Call_SaveAndApplyConfig ctx ucfg)
     (SaveAndApplyConfig (primary_remote (fam s)) ctx ucfg) s
     (RemotePrimary_SaveAndApplyConfig ctx ucfg s) \<and>
   only_remote (Call_SaveAndApplyDefaultConfig ctx)
     (SaveAndApplyDefaultConfig (primary_remote (fam s)) ctx) s
     (RemotePrimary_SaveAndApplyDefaultConfig ctx s) \<and>
   only_remote (Call_ApplyConfig ctx config)
     (ApplyConfig (primary_remote (fam s)) ctx config) s
     (RemotePrimary_ApplyConfig ctx config s) \<and>
   only_internal Call_CleanUp
     (CleanUp (primary_internal (fam s))) s
     (RemotePrimary_CleanUp s)"
  unfolding RemotePrimary_delegating_defs
  by (intro conjI only_remote_call only_internal_call)

text \<open>
  C8: \<open>Ready\<close> of the primary coordinator returns true if and only if the local engine's
  \<open>Ready\<close> and the remote engine's \<open>Ready\<close> both return true.
\<close>

theorem primary_ready_iff_both:
  "fst (RemotePrimary_Ready s) =
     (fst (Ready (primary_internal (fam s)) (internal_state s)) \<and>
      fst (Ready (primary_remote (fam s)) (remote_state s)))"
  by (simp add: RemotePrimary_Ready_def call_internal_eq call_remote_eq case_prod_unfold)

end
